theory Spec2Isabelle
  imports Main
begin

section \<open>Values of the host language used by \<^verbatim>\<open>src/use/base.ts\<close>\<close>

text \<open>
  A JavaScript \<^verbatim>\<open>Date\<close> holds a time value: a whole number of milliseconds since the
  epoch, at most \<open>8.64 \<times> 10\<^sup>1\<^sup>5\<close> in absolute value, or \<^verbatim>\<open>NaN\<close> (an "Invalid Date").
  The only arithmetic the file does on numbers is \<^verbatim>\<open>getTime() - 1000\<close> and
  \<^verbatim>\<open>getTime() + 1000\<close>; on whole numbers of this size IEEE doubles are exact, and
  \<^verbatim>\<open>NaN\<close> is absorbing.
\<close>

datatype Number = NaN | Num int

fun num_add :: "Number \<Rightarrow> int \<Rightarrow> Number" where
  "num_add NaN k = NaN"
| "num_add (Num t) k = Num (t + k)"

fun num_sub :: "Number \<Rightarrow> int \<Rightarrow> Number" where
  "num_sub NaN k = NaN"
| "num_sub (Num t) k = Num (t - k)"

definition maxTime :: int where
  "maxTime = 8640000000000000"

text \<open>\<^verbatim>\<open>TimeClip\<close> of ECMAScript: what \<^verbatim>\<open>new Date(v)\<close> stores for a number \<open>v\<close>.\<close>

fun TimeClip :: "Number \<Rightarrow> Number" where
  "TimeClip NaN = NaN"
| "TimeClip (Num t) = (if \<bar>t\<bar> > maxTime then NaN else Num t)"

datatype Date = Date (getTime: Number)

definition new_Date :: "Number \<Rightarrow> Date" where
  "new_Date v = Date (TimeClip v)"

text \<open>The values a \<^verbatim>\<open>Date\<close> object can hold: the image of \<^verbatim>\<open>new Date\<close>.\<close>

definition isDateValue :: "Date \<Rightarrow> bool" where
  "isDateValue d = (TimeClip (getTime d) = getTime d)"

section \<open>Data model\<close>

text \<open>
  The entries of the two published lists. The file itself builds the literals
  \<^verbatim>\<open>{ start: null, end: Date }\<close> and \<^verbatim>\<open>{ start: Date, end: null }\<close>; \<open>None\<close> is \<^verbatim>\<open>null\<close>.
\<close>

record DateRange =
  range_start :: "Date option"
  range_end :: "Date option"

text \<open>
  The part of the \<^verbatim>\<open>Locale\<close> class (\<^verbatim>\<open>utils/locale\<close>) that the file calls. The class
  is not part of the file, so its methods are fields of the record and every
  result below holds for whatever they compute. The second argument of
  \<open>normalizeDate\<close> is the \<^verbatim>\<open>time\<close> option (\<open>None\<close> when the call passes no options),
  the first argument of \<open>normalizeDates\<close> is \<open>None\<close> for an absent prop, its second
  the \<^verbatim>\<open>isAllDay\<close> option.
\<close>

record 's Locale =
  normalizeDate :: "Date \<Rightarrow> string option \<Rightarrow> Date"
  normalizeDates :: "'s list option \<Rightarrow> bool \<Rightarrow> DateRange list"
  locale_masks :: "string \<rightharpoonup> string"

text \<open>\<^verbatim>\<open>Partial<LocaleConfig>\<close>: the object literal built at lines 60 to 64.\<close>

record LocaleConfig =
  config_id :: "string option"
  config_firstDayOfWeek :: "int option"
  config_masks :: "(string \<rightharpoonup> string) option"

text \<open>The second argument of \<^verbatim>\<open>new Locale\<close>.\<close>

record 'l LocaleOptions =
  options_locales :: 'l
  options_timezone :: "string option"

text \<open>
  The \<^verbatim>\<open>locale\<close> prop: \<^verbatim>\<open>string | Record<string, any> | Locale\<close>. The three cases are
  the ones the code tells apart with \<^verbatim>\<open>instanceof Locale\<close> and \<^verbatim>\<open>isObject\<close>.
\<close>

datatype 's LocaleProp =
  LocaleId string
| LocaleObject LocaleConfig
| LocaleInstance "'s Locale"

text \<open>
  \<^verbatim>\<open>BaseProps\<close>. An optional prop is an \<open>option\<close>; a \<^verbatim>\<open>Date\<close> object is truthy
  whatever its time value, so \<^verbatim>\<open>props.minDateExact || props.minDate\<close> tests presence.
\<close>

record ('s, 'd) BaseProps =
  props_color :: string
  props_isDark :: "'d option"
  props_locale :: "'s LocaleProp option"
  props_firstDayOfWeek :: "int option"
  props_masks :: "(string \<rightharpoonup> string) option"
  props_timezone :: "string option"
  props_minDate :: "Date option"
  props_minDateExact :: "Date option"
  props_maxDate :: "Date option"
  props_maxDateExact :: "Date option"
  props_disabledDates :: "'s list option"
  props_availableDates :: "'s list option"

text \<open>
  What the file imports and calls without defining: the constructor of \<^verbatim>\<open>Locale\<close>,
  the \<^verbatim>\<open>locales\<close> dictionary of \<^verbatim>\<open>utils/defaults\<close> and \<^verbatim>\<open>useTheme\<close>.
\<close>

record ('s, 'd, 'l, 't) Imports =
  new_Locale :: "LocaleConfig \<Rightarrow> 'l LocaleOptions \<Rightarrow> 's Locale"
  locales_value :: 'l
  useTheme :: "string \<Rightarrow> 'd option \<Rightarrow> 't"

datatype ExcludeMode = Includes | Intervals

text \<open>The first argument of \<^verbatim>\<open>new Attribute\<close>.\<close>

record AttributeConfig =
  attr_key :: string
  attr_dates :: "DateRange list"
  attr_excludeDates :: "DateRange list"
  attr_excludeMode :: ExcludeMode
  attr_order :: int

text \<open>
  \<^verbatim>\<open>new Attribute(config, theme, locale)\<close>. The class is not part of the file; the
  model keeps the three arguments the attribute is built with.
\<close>

datatype ('s, 't) Attribute = Attribute AttributeConfig 't "'s Locale"

fun attribute_config :: "('s, 't) Attribute \<Rightarrow> AttributeConfig" where
  "attribute_config (Attribute c t l) = c"

section \<open>The computed values of \<^verbatim>\<open>createBase\<close>\<close>

definition theme_value :: "('s, 'd, 'l, 't) Imports \<Rightarrow> ('s, 'd) BaseProps \<Rightarrow> 't" where
  "theme_value imp props = useTheme imp (props_color props) (props_isDark props)"

text \<open>Lines 53 to 71.\<close>

definition locale_value :: "('s, 'd, 'l, 't) Imports \<Rightarrow> ('s, 'd) BaseProps \<Rightarrow> 's Locale" where
  "locale_value imp props =
     (case props_locale props of
        Some (LocaleInstance l) \<Rightarrow> l
      | Some (LocaleObject c) \<Rightarrow>
          new_Locale imp c
            \<lparr>options_locales = locales_value imp, options_timezone = props_timezone props\<rparr>
      | Some (LocaleId s) \<Rightarrow>
          new_Locale imp
            \<lparr>config_id = Some s,
             config_firstDayOfWeek = props_firstDayOfWeek props,
             config_masks = props_masks props\<rparr>
            \<lparr>options_locales = locales_value imp, options_timezone = props_timezone props\<rparr>
      | None \<Rightarrow>
          new_Locale imp
            \<lparr>config_id = None,
             config_firstDayOfWeek = props_firstDayOfWeek props,
             config_masks = props_masks props\<rparr>
            \<lparr>options_locales = locales_value imp, options_timezone = props_timezone props\<rparr>)"

definition masks :: "('s, 'd, 'l, 't) Imports \<Rightarrow> ('s, 'd) BaseProps \<Rightarrow> (string \<rightharpoonup> string)" where
  "masks imp props = locale_masks (locale_value imp props)"

text \<open>
  Lines 75 to 100. \<^verbatim>\<open>dates.push\<close> appends to the array that \<^verbatim>\<open>normalizeDates\<close> returned;
  the two \<^verbatim>\<open>if\<close> statements run one after the other.
\<close>

definition disabledDates :: "('s, 'd, 'l, 't) Imports \<Rightarrow> ('s, 'd) BaseProps \<Rightarrow> DateRange list" where
  "disabledDates imp props =
     (let loc = locale_value imp props;
          dates0 = normalizeDates loc (props_disabledDates props) True;
          dates1 =
            (if props_minDateExact props \<noteq> None \<or> props_minDate props \<noteq> None then
               (let end = (case props_minDateExact props of
                             Some e \<Rightarrow> normalizeDate loc e None
                           | None \<Rightarrow> normalizeDate loc (the (props_minDate props)) (Some ''00:00:00''))
                in dates0 @
                   [\<lparr>range_start = None,
                     range_end = Some (new_Date (num_sub (getTime end) 1000))\<rparr>])
             else dates0);
          dates2 =
            (if props_maxDateExact props \<noteq> None \<or> props_maxDate props \<noteq> None then
               (let start = (case props_maxDateExact props of
                               Some e \<Rightarrow> normalizeDate loc e None
                             | None \<Rightarrow> normalizeDate loc (the (props_maxDate props)) (Some ''23:59:59''))
                in dates1 @
                   [\<lparr>range_start = Some (new_Date (num_add (getTime start) 1000)),
                     range_end = None\<rparr>])
             else dates1)
      in dates2)"

text \<open>Lines 102 to 106.\<close>

definition availableDates :: "('s, 'd, 'l, 't) Imports \<Rightarrow> ('s, 'd) BaseProps \<Rightarrow> DateRange list" where
  "availableDates imp props =
     normalizeDates (locale_value imp props) (props_availableDates props) False"

text \<open>Lines 108 to 120.\<close>

definition disabledAttribute ::
  "('s, 'd, 'l, 't) Imports \<Rightarrow> ('s, 'd) BaseProps \<Rightarrow> ('s, 't) Attribute" where
  "disabledAttribute imp props =
     Attribute
       \<lparr>attr_key = ''disabled'',
        attr_dates = disabledDates imp props,
        attr_excludeDates = availableDates imp props,
        attr_excludeMode = Includes,
        attr_order = 100\<rparr>
       (theme_value imp props)
       (locale_value imp props)"

section \<open>The shared context\<close>

text \<open>\<^verbatim>\<open>BaseContext\<close>, with each computed reference read at its value.\<close>

record ('s, 't) BaseContext =
  context_theme :: 't
  context_locale :: "'s Locale"
  context_masks :: "string \<rightharpoonup> string"
  context_disabledDates :: "DateRange list"
  context_availableDates :: "DateRange list"
  context_disabledAttribute :: "('s, 't) Attribute"

definition contextKey :: string where
  "contextKey = ''__vc_base_context__''"

text \<open>
  \<^verbatim>\<open>provide\<close> and \<^verbatim>\<open>inject\<close> of the framework: the values provided to a component, by
  key. \<^verbatim>\<open>inject\<close> without a default gives \<^verbatim>\<open>undefined\<close> (\<open>None\<close>) for a key nobody provided.
\<close>

definition provide :: "string \<Rightarrow> 'c \<Rightarrow> (string \<rightharpoonup> 'c) \<Rightarrow> (string \<rightharpoonup> 'c)" where
  "provide key v provided = provided(key \<mapsto> v)"

definition inject :: "(string \<rightharpoonup> 'c) \<Rightarrow> string \<Rightarrow> 'c option" where
  "inject provided key = provided key"

text \<open>Lines 48 to 134: the context is provided under \<open>contextKey\<close> and returned.\<close>

definition createBase ::
  "('s, 'd, 'l, 't) Imports \<Rightarrow> ('s, 'd) BaseProps \<Rightarrow> (string \<rightharpoonup> ('s, 't) BaseContext)
   \<Rightarrow> ('s, 't) BaseContext \<times> (string \<rightharpoonup> ('s, 't) BaseContext)" where
  "createBase imp props provided =
     (let context =
            \<lparr>context_theme = theme_value imp props,
             context_locale = locale_value imp props,
             context_masks = masks imp props,
             context_disabledDates = disabledDates imp props,
             context_availableDates = availableDates imp props,
             context_disabledAttribute = disabledAttribute imp props\<rparr>
      in (context, provide contextKey context provided))"

datatype Error = Error string

text \<open>
  Lines 145 to 151. A context is an object, hence truthy; \<^verbatim>\<open>throw\<close> is the left
  summand.
\<close>

definition useBase :: "(string \<rightharpoonup> 'c) \<Rightarrow> Error + 'c" where
  "useBase provided =
     (case inject provided contextKey of
        Some context \<Rightarrow> Inr context
      | None \<Rightarrow>
          Inl (Error ''Base context missing. Please verify this component is nested within a valid context provider.''))"

section \<open>Notions of the specification\<close>

text \<open>
  The synthesized ranges: the entries that \<open>disabledDates\<close> holds after the
  normalized user entries.
\<close>

definition synthesized :: "('s, 'd, 'l, 't) Imports \<Rightarrow> ('s, 'd) BaseProps \<Rightarrow> DateRange list" where
  "synthesized imp props =
     drop (length (normalizeDates (locale_value imp props) (props_disabledDates props) True))
       (disabledDates imp props)"

text \<open>
  The specification's account of the same list, to compare with \<open>disabledDates\<close>:
  each side resolves its boundary to an instant (the exact variant with no options,
  else the plain date with the time of day \<^verbatim>\<open>00:00:00\<close> or \<^verbatim>\<open>23:59:59\<close>) and emits one
  range, one second before the minimum or one second after the maximum, in the
  arithmetic of \<^verbatim>\<open>Date\<close>.
\<close>

definition resolved_min :: "('s, 'd, 'l, 't) Imports \<Rightarrow> ('s, 'd) BaseProps \<Rightarrow> Date option" where
  "resolved_min imp props =
     (case props_minDateExact props of
        Some e \<Rightarrow> Some (normalizeDate (locale_value imp props) e None)
      | None \<Rightarrow>
          (case props_minDate props of
             Some d \<Rightarrow> Some (normalizeDate (locale_value imp props) d (Some ''00:00:00''))
           | None \<Rightarrow> None))"

definition resolved_max :: "('s, 'd, 'l, 't) Imports \<Rightarrow> ('s, 'd) BaseProps \<Rightarrow> Date option" where
  "resolved_max imp props =
     (case props_maxDateExact props of
        Some e \<Rightarrow> Some (normalizeDate (locale_value imp props) e None)
      | None \<Rightarrow>
          (case props_maxDate props of
             Some d \<Rightarrow> Some (normalizeDate (locale_value imp props) d (Some ''23:59:59''))
           | None \<Rightarrow> None))"

definition min_range :: "Date \<Rightarrow> DateRange" where
  "min_range m =
     \<lparr>range_start = None, range_end = Some (new_Date (num_sub (getTime m) 1000))\<rparr>"

definition max_range :: "Date \<Rightarrow> DateRange" where
  "max_range x =
     \<lparr>range_start = Some (new_Date (num_add (getTime x) 1000)), range_end = None\<rparr>"

definition min_ranges :: "('s, 'd, 'l, 't) Imports \<Rightarrow> ('s, 'd) BaseProps \<Rightarrow> DateRange list" where
  "min_ranges imp props =
     (case resolved_min imp props of None \<Rightarrow> [] | Some m \<Rightarrow> [min_range m])"

definition max_ranges :: "('s, 'd, 'l, 't) Imports \<Rightarrow> ('s, 'd) BaseProps \<Rightarrow> DateRange list" where
  "max_ranges imp props =
     (case resolved_max imp props of None \<Rightarrow> [] | Some x \<Rightarrow> [max_range x])"

text \<open>Whether a boundary side is present, as the two guards test it.\<close>

definition min_present :: "('s, 'd) BaseProps \<Rightarrow> bool" where
  "min_present props = (props_minDateExact props \<noteq> None \<or> props_minDate props \<noteq> None)"

definition max_present :: "('s, 'd) BaseProps \<Rightarrow> bool" where
  "max_present props = (props_maxDateExact props \<noteq> None \<or> props_maxDate props \<noteq> None)"

text \<open>
  Modelled from the spec: membership of an instant (in milliseconds) in a date range,
  which the file leaves to the renderer. Section 3 of the specification: \<^verbatim>\<open>null\<close> on
  either end means unbounded in that direction; section 4.2: the end of a range is
  the last instant inside it (the boundary instant, one second later, is outside).
  A comparison with an Invalid Date is false, as a comparison with \<^verbatim>\<open>NaN\<close> is.
\<close>

fun from_start :: "Date option \<Rightarrow> int \<Rightarrow> bool" where
  "from_start None t = True"
| "from_start (Some (Date NaN)) t = False"
| "from_start (Some (Date (Num s))) t = (s \<le> t)"

fun upto_end :: "Date option \<Rightarrow> int \<Rightarrow> bool" where
  "upto_end None t = True"
| "upto_end (Some (Date NaN)) t = False"
| "upto_end (Some (Date (Num e))) t = (t \<le> e)"

definition in_range :: "int \<Rightarrow> DateRange \<Rightarrow> bool" where
  "in_range t r = (from_start (range_start r) t \<and> upto_end (range_end r) t)"

definition in_some_range :: "int \<Rightarrow> DateRange list \<Rightarrow> bool" where
  "in_some_range t rs = list_ex (in_range t) rs"

text \<open>
  Modelled from the spec: local time in a time zone with a fixed offset \<open>off\<close> (in
  milliseconds, local minus universal). The day number and the time of day of an
  instant, and the instant of a time of day on the local day of an instant.
\<close>

definition msPerDay :: int where
  "msPerDay = 86400000"

definition localDay :: "int \<Rightarrow> int \<Rightarrow> int" where
  "localDay off t = (t + off) div msPerDay"

definition localTimeOfDay :: "int \<Rightarrow> int \<Rightarrow> int" where
  "localTimeOfDay off t = (t + off) mod msPerDay"

definition atLocalTime :: "int \<Rightarrow> int \<Rightarrow> int \<Rightarrow> int" where
  "atLocalTime off t tod = localDay off t * msPerDay + tod - off"

text \<open>\<^verbatim>\<open>HH:MM:SS\<close> as milliseconds after midnight.\<close>

definition digit :: "char \<Rightarrow> int option" where
  "digit c =
     (let n = (of_char c :: nat)
      in if 48 \<le> n \<and> n \<le> 57 then Some (int n - 48) else None)"

fun two_digits :: "char \<Rightarrow> char \<Rightarrow> int option" where
  "two_digits a b =
     (case (digit a, digit b) of (Some x, Some y) \<Rightarrow> Some (10 * x + y) | _ \<Rightarrow> None)"

fun timeOfDay :: "string \<Rightarrow> int option" where
  "timeOfDay [h1, h2, c1, m1, m2, c2, s1, s2] =
     (if c1 = CHR '':'' \<and> c2 = CHR '':'' then
        (case (two_digits h1 h2, two_digits m1 m2, two_digits s1 s2) of
           (Some h, Some m, Some s) \<Rightarrow>
             (if h < 24 \<and> m < 60 \<and> s < 60 then Some (((h * 60 + m) * 60 + s) * 1000) else None)
         | _ \<Rightarrow> None)
      else None)"
| "timeOfDay _ = None"

text \<open>
  Modelled from the spec: the date specifications of section 3 (an exact date, an
  exact date paired with a time of day, a range object) and the contract of the
  locale of section 4.1, in a time zone with a fixed offset. \<open>normalizeDate\<close> keeps
  the instant when no time is given and applies a given time of day on the
  instant's local day; \<open>normalizeDates\<close> gives the empty list for an absent prop
  and one range for each entry, with the exact instants when \<open>isAllDay\<close> is off
  and snapped to the start and the end of the local day when it is on.
\<close>

datatype DateSpec =
  SpecDate Date
| SpecDateTime Date string
| SpecRange "Date option" "Date option"

definition spec_normalizeDate :: "int \<Rightarrow> Date \<Rightarrow> string option \<Rightarrow> Date" where
  "spec_normalizeDate off d time =
     (case getTime d of
        NaN \<Rightarrow> new_Date NaN
      | Num t \<Rightarrow>
          (case time of
             None \<Rightarrow> new_Date (Num t)
           | Some s \<Rightarrow>
               (case timeOfDay s of
                  None \<Rightarrow> new_Date NaN
                | Some tod \<Rightarrow> new_Date (Num (atLocalTime off t tod)))))"

fun spec_exactRange :: "int \<Rightarrow> DateSpec \<Rightarrow> DateRange" where
  "spec_exactRange off (SpecDate d) =
     \<lparr>range_start = Some (spec_normalizeDate off d None),
      range_end = Some (spec_normalizeDate off d None)\<rparr>"
| "spec_exactRange off (SpecDateTime d time) =
     \<lparr>range_start = Some (spec_normalizeDate off d (Some time)),
      range_end = Some (spec_normalizeDate off d (Some time))\<rparr>"
| "spec_exactRange off (SpecRange s e) =
     \<lparr>range_start = map_option (\<lambda>d. spec_normalizeDate off d None) s,
      range_end = map_option (\<lambda>d. spec_normalizeDate off d None) e\<rparr>"

definition spec_allDayRange :: "int \<Rightarrow> DateRange \<Rightarrow> DateRange" where
  "spec_allDayRange off r =
     \<lparr>range_start = map_option (\<lambda>d. spec_normalizeDate off d (Some ''00:00:00'')) (range_start r),
      range_end = map_option (\<lambda>d. spec_normalizeDate off d (Some ''23:59:59'')) (range_end r)\<rparr>"

definition spec_normalizeDates :: "int \<Rightarrow> DateSpec list option \<Rightarrow> bool \<Rightarrow> DateRange list" where
  "spec_normalizeDates off specs isAllDay =
     (case specs of
        None \<Rightarrow> []
      | Some xs \<Rightarrow>
          map (\<lambda>x. if isAllDay then spec_allDayRange off (spec_exactRange off x)
                   else spec_exactRange off x) xs)"

definition spec_Locale :: "int \<Rightarrow> (string \<rightharpoonup> string) \<Rightarrow> DateSpec Locale" where
  "spec_Locale off ms =
     \<lparr>normalizeDate = spec_normalizeDate off,
      normalizeDates = spec_normalizeDates off,
      locale_masks = ms\<rparr>"

text \<open>
  Modelled from the spec: imports to run the computation with. Every locale built is
  the contract locale in universal time, with the masks of its configuration; the
  theme is the colour.
\<close>

definition spec_Imports :: "(DateSpec, bool, unit, string) Imports" where
  "spec_Imports =
     \<lparr>new_Locale =
        (\<lambda>c opts. spec_Locale 0 (case config_masks c of None \<Rightarrow> Map.empty | Some m \<Rightarrow> m)),
      locales_value = (),
      useTheme = (\<lambda>color isDark. color)\<rparr>"

text \<open>Props with every optional prop absent.\<close>

definition no_props :: "(DateSpec, bool) BaseProps" where
  "no_props =
     \<lparr>props_color = ''blue'',
      props_isDark = None,
      props_locale = None,
      props_firstDayOfWeek = None,
      props_masks = None,
      props_timezone = None,
      props_minDate = None,
      props_minDateExact = None,
      props_maxDate = None,
      props_maxDateExact = None,
      props_disabledDates = None,
      props_availableDates = None\<rparr>"

section \<open>The list of disabled dates, as the specification composes it\<close>

lemma disabledDates_append:
  "disabledDates imp props =
     normalizeDates (locale_value imp props) (props_disabledDates props) True
       @ min_ranges imp props @ max_ranges imp props"
  by (cases "props_minDateExact props"; cases "props_minDate props";
      cases "props_maxDateExact props"; cases "props_maxDate props")
     (simp_all add: Let_def disabledDates_def min_ranges_def max_ranges_def resolved_min_def
        resolved_max_def min_range_def max_range_def)

lemma synthesized_append:
  "synthesized imp props = min_ranges imp props @ max_ranges imp props"
  by (simp add: synthesized_def disabledDates_append)

lemma length_min_ranges:
  "length (min_ranges imp props) = (if min_present props then 1 else 0)"
  by (simp add: min_ranges_def resolved_min_def min_present_def split: option.splits)

lemma length_max_ranges:
  "length (max_ranges imp props) = (if max_present props then 1 else 0)"
  by (simp add: max_ranges_def resolved_max_def max_present_def split: option.splits)

lemma resolved_min_None: "\<not> min_present props \<Longrightarrow> resolved_min imp props = None"
  by (simp add: resolved_min_def min_present_def)

lemma resolved_max_None: "\<not> max_present props \<Longrightarrow> resolved_max imp props = None"
  by (simp add: resolved_max_def max_present_def)

lemma resolved_min_Some: "min_present props \<Longrightarrow> \<exists>m. resolved_min imp props = Some m"
  by (auto simp: resolved_min_def min_present_def split: option.splits)

lemma resolved_max_Some: "max_present props \<Longrightarrow> \<exists>x. resolved_max imp props = Some x"
  by (auto simp: resolved_max_def max_present_def split: option.splits)

text \<open>Evaluation of the contract locale on the inputs of the examples.\<close>

lemma timeOfDay_midnight: "timeOfDay ''00:00:00'' = Some 0"
  by (simp add: digit_def)

lemma timeOfDay_last_second: "timeOfDay ''23:59:59'' = Some 86399000"
  by (simp add: digit_def)

lemma locale_value_spec:
  "props_locale props = None \<Longrightarrow>
   locale_value spec_Imports props =
     spec_Locale 0 (case props_masks props of None \<Rightarrow> Map.empty | Some m \<Rightarrow> m)"
  by (simp add: locale_value_def spec_Imports_def)

lemmas spec_eval =
  locale_value_spec spec_Locale_def spec_normalizeDate_def spec_normalizeDates_def
  spec_allDayRange_def digit_def atLocalTime_def localDay_def
  localTimeOfDay_def msPerDay_def new_Date_def maxTime_def no_props_def
  resolved_min_def resolved_max_def min_range_def max_range_def min_ranges_def max_ranges_def
  min_present_def max_present_def in_range_def in_some_range_def

text \<open>The plain boundary props are read by their own side only.\<close>

lemma locale_value_minDate:
  "locale_value imp (props\<lparr>props_minDate := d\<rparr>) = locale_value imp props"
  by (simp add: locale_value_def split: option.splits LocaleProp.splits)

lemma locale_value_maxDate:
  "locale_value imp (props\<lparr>props_maxDate := d\<rparr>) = locale_value imp props"
  by (simp add: locale_value_def split: option.splits LocaleProp.splits)

lemma max_ranges_minDate:
  "max_ranges imp (props\<lparr>props_minDate := d\<rparr>) = max_ranges imp props"
  by (simp add: max_ranges_def resolved_max_def locale_value_minDate split: option.splits)

lemma min_ranges_maxDate:
  "min_ranges imp (props\<lparr>props_maxDate := d\<rparr>) = min_ranges imp props"
  by (simp add: min_ranges_def resolved_min_def locale_value_maxDate split: option.splits)

text \<open>Membership in the two kinds of synthesized range.\<close>

lemma in_min_range:
  "in_range t (min_range (Date (Num a))) \<longleftrightarrow> \<bar>a - 1000\<bar> \<le> maxTime \<and> t \<le> a - 1000"
  by (simp add: in_range_def min_range_def new_Date_def)

lemma in_max_range:
  "in_range t (max_range (Date (Num b))) \<longleftrightarrow> \<bar>b + 1000\<bar> \<le> maxTime \<and> b + 1000 \<le> t"
  by (simp add: in_range_def max_range_def new_Date_def)

lemma not_in_min_range_NaN: "\<not> in_range t (min_range (Date NaN))"
  by (simp add: in_range_def min_range_def new_Date_def)

lemma not_in_max_range_NaN: "\<not> in_range t (max_range (Date NaN))"
  by (simp add: in_range_def max_range_def new_Date_def)

lemma range_end_min_range:
  "- maxTime + 1000 \<le> a \<Longrightarrow> a \<le> maxTime \<Longrightarrow>
   range_end (min_range (Date (Num a))) = Some (Date (Num (a - 1000)))"
  by (simp add: min_range_def new_Date_def maxTime_def)

lemma range_start_max_range:
  "- maxTime \<le> b \<Longrightarrow> b + 1000 \<le> maxTime \<Longrightarrow>
   range_start (max_range (Date (Num b))) = Some (Date (Num (b + 1000)))"
  by (simp add: max_range_def new_Date_def maxTime_def)

text \<open>One second before local midnight is 23:59:59 of the day before.\<close>

lemma second_before_midnight:
  assumes "localTimeOfDay off a = 0"
  shows "localDay off (a - 1000) = localDay off a - 1
         \<and> localTimeOfDay off (a - 1000) = 86399000"
proof -
  have "(a + off) mod 86400000 = 0"
    using assms by (simp add: localTimeOfDay_def msPerDay_def)
  then obtain k where k: "a + off = k * 86400000"
    by (auto simp: mod_eq_0_iff_dvd)
  have e: "a - 1000 + off = 86399000 + (k - 1) * 86400000"
    using k by (simp add: algebra_simps)
  have d: "(a - 1000 + off) div 86400000 = k - 1"
  proof -
    have "(86399000 + (k - 1) * 86400000) div 86400000 = (k - 1) + 86399000 div (86400000 :: int)"
      by (rule div_mult_self1) simp
    then show ?thesis unfolding e by simp
  qed
  have r: "(a - 1000 + off) mod 86400000 = 86399000"
  proof -
    have "(86399000 + (k - 1) * 86400000) mod 86400000 = 86399000 mod (86400000 :: int)"
      by (rule mod_mult_self1)
    then show ?thesis unfolding e by simp
  qed
  have d0: "(a + off) div 86400000 = k"
    unfolding k by simp
  show ?thesis
    by (simp add: localDay_def localTimeOfDay_def msPerDay_def d r d0)
qed

text \<open>Membership in the pair of synthesized ranges.\<close>

lemma in_some_range_pair:
  "in_some_range t [min_range (Date (Num a)), max_range (Date (Num b))] \<longleftrightarrow>
     (\<bar>a - 1000\<bar> \<le> maxTime \<and> t \<le> a - 1000) \<or> (\<bar>b + 1000\<bar> \<le> maxTime \<and> b + 1000 \<le> t)"
  by (simp add: in_some_range_def in_min_range in_max_range)

text \<open>A context created by \<open>createBase\<close> is the one \<open>useBase\<close> finds.\<close>

lemma useBase_after_createBase:
  "useBase (snd (createBase imp props provided)) = Inr (fst (createBase imp props provided))"
  by (simp add: createBase_def Let_def useBase_def inject_def provide_def)

text \<open>The list of available dates is one call of the normalizer, with the flag off.\<close>

lemma availableDates_normalizeDates:
  "availableDates imp props =
     normalizeDates (locale_value imp props) (props_availableDates props) False"
  by (simp add: availableDates_def)

lemma spec_normalizeDate_valid:
  "\<bar>s\<bar> \<le> maxTime \<Longrightarrow> spec_normalizeDate off (Date (Num s)) None = Date (Num s)"
  by (simp add: spec_normalizeDate_def new_Date_def)

section \<open>The claims\<close>

text \<open>
  C1 (as amended). When a minimum boundary is present, the computation appends
  exactly one range for it, \<^verbatim>\<open>{ start: null, end: new Date(m.getTime() - 1000) }\<close>, where
  \<open>m\<close> is the exact prop normalized with no options, else the plain prop normalized
  with the time \<^verbatim>\<open>00:00:00\<close>. If \<open>m\<close> is the instant \<open>a\<close>, then \<open>a\<close> is outside that
  range; the end is the instant \<open>a - 1000\<close>, except in the first second of the range
  of \<^verbatim>\<open>Date\<close>, where it is an Invalid Date; \<open>a\<close> is in no synthesized range provided
  the maximum, if it resolves to an instant \<open>b\<close>, has \<open>a < b + 1000\<close>; and for a plain
  minimum that the locale puts at local midnight of its local day, the end is
  23:59:59 local time of the day before.
\<close>

theorem C1_min_range:
  "(min_present props \<longrightarrow> (\<exists>m. resolved_min imp props = Some m))
   \<and> (\<forall>m. resolved_min imp props = Some m \<longrightarrow>
        synthesized imp props = min_range m # max_ranges imp props
        \<and> range_start (min_range m) = None
        \<and> range_end (min_range m) = Some (new_Date (num_sub (getTime m) 1000))
        \<and> (\<forall>e. props_minDateExact props = Some e \<longrightarrow>
              m = normalizeDate (locale_value imp props) e None)
        \<and> (\<forall>d. props_minDateExact props = None \<and> props_minDate props = Some d \<longrightarrow>
              m = normalizeDate (locale_value imp props) d (Some ''00:00:00''))
        \<and> (\<forall>a. m = Date (Num a) \<longrightarrow>
              \<not> in_range a (min_range m)
              \<and> (- maxTime + 1000 \<le> a \<and> a \<le> maxTime \<longrightarrow>
                   range_end (min_range m) = Some (Date (Num (a - 1000))))
              \<and> (- maxTime \<le> a \<and> a < - maxTime + 1000 \<longrightarrow>
                   range_end (min_range m) = Some (Date NaN))
              \<and> ((\<forall>b. resolved_max imp props = Some (Date (Num b)) \<longrightarrow> a < b + 1000) \<longrightarrow>
                   \<not> in_some_range a (synthesized imp props))
              \<and> (\<forall>off t. props_minDateExact props = None
                     \<and> props_minDate props = Some (Date (Num t))
                     \<and> localDay off a = localDay off t \<and> localTimeOfDay off a = 0
                     \<and> - maxTime + 1000 \<le> a \<and> a \<le> maxTime \<longrightarrow>
                   range_end (min_range m) = Some (Date (Num (a - 1000)))
                   \<and> localDay off (a - 1000) = localDay off t - 1
                   \<and> localTimeOfDay off (a - 1000) = 86399000)))"
proof (intro conjI allI impI)
  assume "min_present props"
  then show "\<exists>m. resolved_min imp props = Some m" by (rule resolved_min_Some)
next
  fix m assume "resolved_min imp props = Some m"
  then show "synthesized imp props = min_range m # max_ranges imp props"
    by (simp add: synthesized_append min_ranges_def)
next
  fix m show "range_start (min_range m) = None" by (simp add: min_range_def)
next
  fix m show "range_end (min_range m) = Some (new_Date (num_sub (getTime m) 1000))"
    by (simp add: min_range_def)
next
  fix m e assume "resolved_min imp props = Some m" "props_minDateExact props = Some e"
  then show "m = normalizeDate (locale_value imp props) e None"
    by (simp add: resolved_min_def)
next
  fix m d
  assume "resolved_min imp props = Some m"
    "props_minDateExact props = None \<and> props_minDate props = Some d"
  then show "m = normalizeDate (locale_value imp props) d (Some ''00:00:00'')"
    by (simp add: resolved_min_def)
next
  fix m a assume "m = Date (Num a)"
  then show "\<not> in_range a (min_range m)" by (simp add: in_min_range)
next
  fix m a assume "m = Date (Num a)" "- maxTime + 1000 \<le> a \<and> a \<le> maxTime"
  then show "range_end (min_range m) = Some (Date (Num (a - 1000)))"
    by (simp add: range_end_min_range)
next
  fix m a assume "m = Date (Num a)" "- maxTime \<le> a \<and> a < - maxTime + 1000"
  then have "maxTime < \<bar>a - 1000\<bar>" by linarith
  with \<open>m = Date (Num a)\<close> show "range_end (min_range m) = Some (Date NaN)"
    by (simp add: min_range_def new_Date_def)
next
  fix m a
  assume m: "resolved_min imp props = Some m" "m = Date (Num a)"
    and b: "\<forall>b. resolved_max imp props = Some (Date (Num b)) \<longrightarrow> a < b + 1000"
  have "\<not> in_range a r" if "r \<in> set (max_ranges imp props)" for r
  proof (cases "resolved_max imp props")
    case None
    with that show ?thesis by (simp add: max_ranges_def)
  next
    case (Some x)
    with that have r: "r = max_range x" by (simp add: max_ranges_def)
    show ?thesis
    proof (cases x)
      case (Date v)
      show ?thesis
      proof (cases v)
        case NaN
        with Date r show ?thesis by (simp add: not_in_max_range_NaN)
      next
        case (Num b')
        with Date Some b have "a < b' + 1000" by simp
        with Num Date r show ?thesis by (simp add: in_max_range)
      qed
    qed
  qed
  moreover have "\<not> in_range a (min_range m)" using m by (simp add: in_min_range)
  ultimately show "\<not> in_some_range a (synthesized imp props)"
    using m by (auto simp: in_some_range_def synthesized_append min_ranges_def list_ex_iff)
next
  fix m a off t
  assume "m = Date (Num a)"
    "props_minDateExact props = None \<and> props_minDate props = Some (Date (Num t))
       \<and> localDay off a = localDay off t \<and> localTimeOfDay off a = 0
       \<and> - maxTime + 1000 \<le> a \<and> a \<le> maxTime"
  then show "range_end (min_range m) = Some (Date (Num (a - 1000)))"
    by (simp add: range_end_min_range)
next
  fix m a off t
  assume "props_minDateExact props = None \<and> props_minDate props = Some (Date (Num t))
       \<and> localDay off a = localDay off t \<and> localTimeOfDay off a = 0
       \<and> - maxTime + 1000 \<le> a \<and> a \<le> maxTime"
  then show "localDay off (a - 1000) = localDay off t - 1"
    using second_before_midnight [of off a] by simp
next
  fix m a off t
  assume "props_minDateExact props = None \<and> props_minDate props = Some (Date (Num t))
       \<and> localDay off a = localDay off t \<and> localTimeOfDay off a = 0
       \<and> - maxTime + 1000 \<le> a \<and> a \<le> maxTime"
  then show "localTimeOfDay off (a - 1000) = 86399000"
    using second_before_midnight [of off a] by simp
qed

theorem C1_witness:
  "min_present (no_props\<lparr>props_minDate := Some (Date (Num 1710063000000))\<rparr>)
   \<and> resolved_min spec_Imports (no_props\<lparr>props_minDate := Some (Date (Num 1710063000000))\<rparr>)
       = Some (Date (Num 1710028800000))
   \<and> localDay 0 1710028800000 = localDay 0 1710063000000
   \<and> localTimeOfDay 0 1710028800000 = 0
   \<and> synthesized spec_Imports (no_props\<lparr>props_minDate := Some (Date (Num 1710063000000))\<rparr>)
       = [\<lparr>range_start = None, range_end = Some (Date (Num 1710028799000))\<rparr>]
   \<and> \<not> in_some_range 1710028800000
         (synthesized spec_Imports (no_props\<lparr>props_minDate := Some (Date (Num 1710063000000))\<rparr>))
   \<and> localDay 0 1710028799000 = localDay 0 1710063000000 - 1
   \<and> localTimeOfDay 0 1710028799000 = 86399000"
proof -
  let ?p = "no_props\<lparr>props_minDate := Some (Date (Num 1710063000000))\<rparr>"
  let ?m = "Date (Num 1710028800000)"
  have p: "min_present ?p" by (simp add: min_present_def)
  have m: "resolved_min spec_Imports ?p = Some ?m" by (simp add: spec_eval)
  have x: "resolved_max spec_Imports ?p = None" by (simp add: spec_eval)
  have d: "localDay 0 1710028800000 = localDay 0 1710063000000"
    by (simp add: localDay_def msPerDay_def)
  have t: "localTimeOfDay 0 1710028800000 = 0"
    by (simp add: localTimeOfDay_def msPerDay_def)
  have r: "- maxTime + 1000 \<le> 1710028800000 \<and> 1710028800000 \<le> maxTime"
    by (simp add: maxTime_def)
  have e: "props_minDateExact ?p = None \<and> props_minDate ?p = Some (Date (Num 1710063000000))"
    by (simp add: no_props_def)
  note c = C1_min_range [of ?p spec_Imports, THEN conjunct2, rule_format, OF m]
  note c1 = c [THEN conjunct1]
  note ca = c [THEN conjunct2, THEN conjunct2, THEN conjunct2, THEN conjunct2, THEN conjunct2,
      rule_format, OF refl]
  have s: "synthesized spec_Imports ?p
      = [\<lparr>range_start = None, range_end = Some (Date (Num 1710028799000))\<rparr>]"
    unfolding c1 using x by (simp add: max_ranges_def min_range_def new_Date_def maxTime_def)
  have n: "\<not> in_some_range 1710028800000 (synthesized spec_Imports ?p)"
    using ca [THEN conjunct2, THEN conjunct2, THEN conjunct2, THEN conjunct1] x by simp
  have l: "localDay 0 (1710028800000 - 1000) = localDay 0 1710063000000 - 1
           \<and> localTimeOfDay 0 (1710028800000 - 1000) = 86399000"
    using ca [THEN conjunct2, THEN conjunct2, THEN conjunct2, THEN conjunct2, rule_format,
        where off = 0 and t = 1710063000000] e d t r
    by blast
  from p m d t s n l show ?thesis by simp
qed

text \<open>
  The claim as stated fails when the boundaries are inverted: with the minimum on
  2024-03-10 and the maximum on 2024-03-01 (universal time), the minimum instant
  2024-03-10T00:00:00 lies in the range synthesized for the maximum, which starts
  at 2024-03-02T00:00:00.
\<close>

theorem C1_counterexample:
  "min_present (no_props\<lparr>props_minDate := Some (Date (Num 1710028800000)),
                          props_maxDate := Some (Date (Num 1709251200000))\<rparr>)
   \<and> resolved_min spec_Imports
        (no_props\<lparr>props_minDate := Some (Date (Num 1710028800000)),
                  props_maxDate := Some (Date (Num 1709251200000))\<rparr>)
       = Some (Date (Num 1710028800000))
   \<and> synthesized spec_Imports
        (no_props\<lparr>props_minDate := Some (Date (Num 1710028800000)),
                  props_maxDate := Some (Date (Num 1709251200000))\<rparr>)
       = [\<lparr>range_start = None, range_end = Some (Date (Num 1710028799000))\<rparr>,
          \<lparr>range_start = Some (Date (Num 1709337600000)), range_end = None\<rparr>]
   \<and> in_some_range 1710028800000
        (synthesized spec_Imports
          (no_props\<lparr>props_minDate := Some (Date (Num 1710028800000)),
                    props_maxDate := Some (Date (Num 1709251200000))\<rparr>))"
  by (simp add: synthesized_append spec_eval)

text \<open>
  C2 (as amended). When a maximum boundary is present, the computation appends
  exactly one range for it, \<^verbatim>\<open>{ start: new Date(x.getTime() + 1000), end: null }\<close>, where
  \<open>x\<close> is the exact prop normalized with no options, else the plain prop normalized
  with the time \<^verbatim>\<open>23:59:59\<close>. If \<open>x\<close> is the instant \<open>b\<close> and \<open>b + 1000\<close> is still in the
  range of \<^verbatim>\<open>Date\<close>, the start is the instant \<open>b + 1000\<close>, in particular for an exact
  maximum \<open>T\<close> that the normalizer returns as it is; in the last second of the range of
  \<^verbatim>\<open>Date\<close> the start is an Invalid Date.
\<close>

theorem C2_max_range:
  "(max_present props \<longrightarrow> (\<exists>x. resolved_max imp props = Some x))
   \<and> (\<forall>x. resolved_max imp props = Some x \<longrightarrow>
        synthesized imp props = min_ranges imp props @ [max_range x]
        \<and> range_start (max_range x) = Some (new_Date (num_add (getTime x) 1000))
        \<and> range_end (max_range x) = None
        \<and> (\<forall>e. props_maxDateExact props = Some e \<longrightarrow>
              x = normalizeDate (locale_value imp props) e None)
        \<and> (\<forall>d. props_maxDateExact props = None \<and> props_maxDate props = Some d \<longrightarrow>
              x = normalizeDate (locale_value imp props) d (Some ''23:59:59''))
        \<and> (\<forall>b. x = Date (Num b) \<and> - maxTime \<le> b \<and> b + 1000 \<le> maxTime \<longrightarrow>
              range_start (max_range x) = Some (Date (Num (b + 1000))))
        \<and> (\<forall>b. x = Date (Num b) \<and> b \<le> maxTime \<and> maxTime < b + 1000 \<longrightarrow>
              range_start (max_range x) = Some (Date NaN)))
   \<and> (\<forall>b. props_maxDateExact props = Some (Date (Num b))
          \<and> normalizeDate (locale_value imp props) (Date (Num b)) None = Date (Num b)
          \<and> - maxTime \<le> b \<and> b + 1000 \<le> maxTime \<longrightarrow>
        synthesized imp props =
          min_ranges imp props
            @ [\<lparr>range_start = Some (Date (Num (b + 1000))), range_end = None\<rparr>])"
proof (intro conjI allI impI)
  assume "max_present props"
  then show "\<exists>x. resolved_max imp props = Some x" by (rule resolved_max_Some)
next
  fix x assume "resolved_max imp props = Some x"
  then show "synthesized imp props = min_ranges imp props @ [max_range x]"
    by (simp add: synthesized_append max_ranges_def)
next
  fix x show "range_start (max_range x) = Some (new_Date (num_add (getTime x) 1000))"
    by (simp add: max_range_def)
next
  fix x show "range_end (max_range x) = None" by (simp add: max_range_def)
next
  fix x e assume "resolved_max imp props = Some x" "props_maxDateExact props = Some e"
  then show "x = normalizeDate (locale_value imp props) e None"
    by (simp add: resolved_max_def)
next
  fix x d
  assume "resolved_max imp props = Some x"
    "props_maxDateExact props = None \<and> props_maxDate props = Some d"
  then show "x = normalizeDate (locale_value imp props) d (Some ''23:59:59'')"
    by (simp add: resolved_max_def)
next
  fix x b assume "x = Date (Num b) \<and> - maxTime \<le> b \<and> b + 1000 \<le> maxTime"
  then show "range_start (max_range x) = Some (Date (Num (b + 1000)))"
    by (simp add: range_start_max_range)
next
  fix x b assume h: "x = Date (Num b) \<and> b \<le> maxTime \<and> maxTime < b + 1000"
  then have "maxTime < \<bar>b + 1000\<bar>" by linarith
  with h show "range_start (max_range x) = Some (Date NaN)"
    by (simp add: max_range_def new_Date_def)
next
  fix b
  assume h: "props_maxDateExact props = Some (Date (Num b))
          \<and> normalizeDate (locale_value imp props) (Date (Num b)) None = Date (Num b)
          \<and> - maxTime \<le> b \<and> b + 1000 \<le> maxTime"
  then have "resolved_max imp props = Some (Date (Num b))"
    by (simp add: resolved_max_def)
  moreover have "max_range (Date (Num b))
      = \<lparr>range_start = Some (Date (Num (b + 1000))), range_end = None\<rparr>"
    using h range_start_max_range [of b] by (simp add: max_range_def)
  ultimately show "synthesized imp props =
          min_ranges imp props
            @ [\<lparr>range_start = Some (Date (Num (b + 1000))), range_end = None\<rparr>]"
    by (simp add: synthesized_append max_ranges_def)
qed

theorem C2_witness:
  "props_maxDateExact (no_props\<lparr>props_maxDateExact := Some (Date (Num 1710063000000))\<rparr>)
     = Some (Date (Num 1710063000000))
   \<and> normalizeDate
        (locale_value spec_Imports
           (no_props\<lparr>props_maxDateExact := Some (Date (Num 1710063000000))\<rparr>))
        (Date (Num 1710063000000)) None = Date (Num 1710063000000)
   \<and> - maxTime \<le> 1710063000000 \<and> 1710063000000 + 1000 \<le> maxTime
   \<and> synthesized spec_Imports
        (no_props\<lparr>props_maxDateExact := Some (Date (Num 1710063000000))\<rparr>)
       = [\<lparr>range_start = Some (Date (Num 1710063001000)), range_end = None\<rparr>]
   \<and> max_present (no_props\<lparr>props_maxDate := Some (Date (Num 1710063000000))\<rparr>)
   \<and> resolved_max spec_Imports (no_props\<lparr>props_maxDate := Some (Date (Num 1710063000000))\<rparr>)
       = Some (Date (Num 1710115199000))
   \<and> synthesized spec_Imports (no_props\<lparr>props_maxDate := Some (Date (Num 1710063000000))\<rparr>)
       = [\<lparr>range_start = Some (Date (Num 1710115200000)), range_end = None\<rparr>]"
proof -
  let ?p = "no_props\<lparr>props_maxDateExact := Some (Date (Num 1710063000000))\<rparr>"
  let ?q = "no_props\<lparr>props_maxDate := Some (Date (Num 1710063000000))\<rparr>"
  have h: "props_maxDateExact ?p = Some (Date (Num 1710063000000))
          \<and> normalizeDate (locale_value spec_Imports ?p) (Date (Num 1710063000000)) None
              = Date (Num 1710063000000)
          \<and> - maxTime \<le> 1710063000000 \<and> 1710063000000 + 1000 \<le> maxTime"
    by (simp add: spec_eval)
  have m: "min_ranges spec_Imports ?p = []" by (simp add: spec_eval)
  note c = C2_max_range [of ?p spec_Imports, THEN conjunct2, THEN conjunct2, rule_format, OF h]
  have e: "synthesized spec_Imports ?p
       = [\<lparr>range_start = Some (Date (Num 1710063001000)), range_end = None\<rparr>]"
    unfolding c m by simp
  have qp: "max_present ?q" by (simp add: max_present_def)
  have qx: "resolved_max spec_Imports ?q = Some (Date (Num 1710115199000))"
    by (simp add: spec_eval)
  have qm: "min_ranges spec_Imports ?q = []" by (simp add: spec_eval)
  note d = C2_max_range [of ?q spec_Imports, THEN conjunct2, THEN conjunct1, rule_format, OF qx]
  have qb: "Date (Num 1710115199000) = Date (Num 1710115199000)
            \<and> - maxTime \<le> 1710115199000 \<and> 1710115199000 + 1000 \<le> maxTime"
    by (simp add: maxTime_def)
  have qs: "range_start (max_range (Date (Num 1710115199000)))
            = Some (Date (Num (1710115199000 + 1000)))"
    using d [THEN conjunct2, THEN conjunct2, THEN conjunct2, THEN conjunct2, THEN conjunct2,
        THEN conjunct1, rule_format, OF qb] .
  have qe: "range_end (max_range (Date (Num 1710115199000))) = None"
    using d [THEN conjunct2, THEN conjunct2, THEN conjunct1] .
  have "max_range (Date (Num 1710115199000))
        = \<lparr>range_start = Some (Date (Num 1710115200000)), range_end = None\<rparr>"
    using qs qe by (cases "max_range (Date (Num 1710115199000))") simp
  then have f: "synthesized spec_Imports ?q
       = [\<lparr>range_start = Some (Date (Num 1710115200000)), range_end = None\<rparr>]"
    unfolding d [THEN conjunct1] qm by simp
  from h e qp qx f show ?thesis by simp
qed

text \<open>
  The claim as stated fails in the last second of the range of \<^verbatim>\<open>Date\<close>: for the exact
  maximum \<open>T\<close> with the time value \<open>8.64 \<times> 10\<^sup>1\<^sup>5\<close> the normalizer returns \<open>T\<close>, and the
  start of the synthesized range is an Invalid Date, not \<open>T\<close> plus one second.
\<close>

theorem C2_counterexample:
  "max_present (no_props\<lparr>props_maxDateExact := Some (Date (Num 8640000000000000))\<rparr>)
   \<and> isDateValue (Date (Num 8640000000000000))
   \<and> resolved_max spec_Imports
        (no_props\<lparr>props_maxDateExact := Some (Date (Num 8640000000000000))\<rparr>)
       = Some (Date (Num 8640000000000000))
   \<and> synthesized spec_Imports
        (no_props\<lparr>props_maxDateExact := Some (Date (Num 8640000000000000))\<rparr>)
       = [\<lparr>range_start = Some (Date NaN), range_end = None\<rparr>]
   \<and> synthesized spec_Imports
        (no_props\<lparr>props_maxDateExact := Some (Date (Num 8640000000000000))\<rparr>)
       \<noteq> [\<lparr>range_start = Some (Date (Num (8640000000000000 + 1000))), range_end = None\<rparr>]"
  by (simp add: synthesized_append isDateValue_def spec_eval)

text \<open>
  C3. When a side has both its exact and its plain prop, the range of that side is
  computed from the exact prop, normalized with no time option, and the list of
  disabled dates is the same whatever the plain prop is.
\<close>

theorem C3_exact_takes_precedence:
  "(\<forall>e d. props_minDateExact props = Some e \<and> props_minDate props = Some d \<longrightarrow>
      synthesized imp props =
        min_range (normalizeDate (locale_value imp props) e None) # max_ranges imp props
      \<and> (\<forall>d'. disabledDates imp (props\<lparr>props_minDate := d'\<rparr>) = disabledDates imp props))
   \<and> (\<forall>e d. props_maxDateExact props = Some e \<and> props_maxDate props = Some d \<longrightarrow>
      synthesized imp props =
        min_ranges imp props @ [max_range (normalizeDate (locale_value imp props) e None)]
      \<and> (\<forall>d'. disabledDates imp (props\<lparr>props_maxDate := d'\<rparr>) = disabledDates imp props))"
proof -
  have min_side:
    "synthesized imp props =
        min_range (normalizeDate (locale_value imp props) e None) # max_ranges imp props
     \<and> (\<forall>d'. disabledDates imp (props\<lparr>props_minDate := d'\<rparr>) = disabledDates imp props)"
    if "props_minDateExact props = Some e" for e
    using that
    by (simp add: synthesized_append disabledDates_append min_ranges_def resolved_min_def
        max_ranges_minDate locale_value_minDate)
  have max_side:
    "synthesized imp props =
        min_ranges imp props @ [max_range (normalizeDate (locale_value imp props) e None)]
     \<and> (\<forall>d'. disabledDates imp (props\<lparr>props_maxDate := d'\<rparr>) = disabledDates imp props)"
    if "props_maxDateExact props = Some e" for e
    using that
    by (simp add: synthesized_append disabledDates_append max_ranges_def resolved_max_def
        min_ranges_maxDate locale_value_maxDate)
  show ?thesis using min_side max_side by blast
qed

theorem C3_witness:
  "props_minDateExact
     (no_props\<lparr>props_minDate := Some (Date (Num 1710028800000)),
               props_minDateExact := Some (Date (Num 1710063000000))\<rparr>)
     = Some (Date (Num 1710063000000))
   \<and> props_minDate
     (no_props\<lparr>props_minDate := Some (Date (Num 1710028800000)),
               props_minDateExact := Some (Date (Num 1710063000000))\<rparr>)
     = Some (Date (Num 1710028800000))
   \<and> synthesized spec_Imports
       (no_props\<lparr>props_minDate := Some (Date (Num 1710028800000)),
                 props_minDateExact := Some (Date (Num 1710063000000))\<rparr>) =
       [\<lparr>range_start = None, range_end = Some (Date (Num 1710062999000))\<rparr>]
   \<and> props_maxDateExact
     (no_props\<lparr>props_maxDate := Some (Date (Num 1710028800000)),
               props_maxDateExact := Some (Date (Num 1710063000000))\<rparr>)
     = Some (Date (Num 1710063000000))
   \<and> props_maxDate
     (no_props\<lparr>props_maxDate := Some (Date (Num 1710028800000)),
               props_maxDateExact := Some (Date (Num 1710063000000))\<rparr>)
     = Some (Date (Num 1710028800000))
   \<and> synthesized spec_Imports
       (no_props\<lparr>props_maxDate := Some (Date (Num 1710028800000)),
                 props_maxDateExact := Some (Date (Num 1710063000000))\<rparr>) =
       [\<lparr>range_start = Some (Date (Num 1710063001000)), range_end = None\<rparr>]"
proof -
  let ?p = "no_props\<lparr>props_minDate := Some (Date (Num 1710028800000)),
                 props_minDateExact := Some (Date (Num 1710063000000))\<rparr>"
  let ?q = "no_props\<lparr>props_maxDate := Some (Date (Num 1710028800000)),
                 props_maxDateExact := Some (Date (Num 1710063000000))\<rparr>"
  have h: "props_minDateExact ?p = Some (Date (Num 1710063000000))
           \<and> props_minDate ?p = Some (Date (Num 1710028800000))"
    by simp
  have k: "props_maxDateExact ?q = Some (Date (Num 1710063000000))
           \<and> props_maxDate ?q = Some (Date (Num 1710028800000))"
    by simp
  note s = C3_exact_takes_precedence [of ?p spec_Imports, THEN conjunct1, rule_format, OF h,
      THEN conjunct1]
  note t = C3_exact_takes_precedence [of ?q spec_Imports, THEN conjunct2, rule_format, OF k,
      THEN conjunct1]
  have a: "synthesized spec_Imports ?p =
       [\<lparr>range_start = None, range_end = Some (Date (Num 1710062999000))\<rparr>]"
    unfolding s by (simp add: spec_eval)
  have b: "synthesized spec_Imports ?q =
       [\<lparr>range_start = Some (Date (Num 1710063001000)), range_end = None\<rparr>]"
    unfolding t by (simp add: spec_eval)
  from h k a b show ?thesis by simp
qed

text \<open>
  C4. With the four boundary props absent, the list of disabled dates is the
  normalized \<^verbatim>\<open>disabledDates\<close> prop and nothing is synthesized; if that prop is absent too
  and the normalizer gives the empty list for an absent prop, the list is empty and
  the disabled attribute is built with no dates (so with no range open on both ends).
\<close>

theorem C4_no_boundaries:
  assumes "props_minDate props = None" and "props_minDateExact props = None"
    and "props_maxDate props = None" and "props_maxDateExact props = None"
  shows "disabledDates imp props =
           normalizeDates (locale_value imp props) (props_disabledDates props) True
         \<and> synthesized imp props = []
         \<and> (props_disabledDates props = None
              \<and> normalizeDates (locale_value imp props) None True = [] \<longrightarrow>
            disabledDates imp props = []
            \<and> attr_dates (attribute_config (disabledAttribute imp props)) = []
            \<and> \<lparr>range_start = None, range_end = None\<rparr>
                 \<notin> set (attr_dates (attribute_config (disabledAttribute imp props))))"
proof -
  have mn: "min_ranges imp props = []" and mx: "max_ranges imp props = []"
    using assms by (simp_all add: min_ranges_def max_ranges_def resolved_min_def resolved_max_def)
  have eq: "disabledDates imp props =
           normalizeDates (locale_value imp props) (props_disabledDates props) True"
    by (simp add: disabledDates_append mn mx)
  have syn: "synthesized imp props = []"
    by (simp add: synthesized_append mn mx)
  have att: "attr_dates (attribute_config (disabledAttribute imp props)) = disabledDates imp props"
    by (simp add: disabledAttribute_def)
  show ?thesis using eq syn att by simp
qed

theorem C4_witness:
  "props_minDate no_props = None \<and> props_minDateExact no_props = None
   \<and> props_maxDate no_props = None \<and> props_maxDateExact no_props = None
   \<and> props_disabledDates no_props = None
   \<and> normalizeDates (locale_value spec_Imports no_props) None True = []
   \<and> disabledDates spec_Imports no_props = []
   \<and> attr_dates (attribute_config (disabledAttribute spec_Imports no_props)) = []"
proof -
  have h1: "props_minDate no_props = None" and h2: "props_minDateExact no_props = None"
    and h3: "props_maxDate no_props = None" and h4: "props_maxDateExact no_props = None"
    and h5: "props_disabledDates no_props = None"
    by (simp_all add: no_props_def)
  have h6: "normalizeDates (locale_value spec_Imports no_props) None True = []"
    by (simp add: spec_eval)
  show ?thesis
    using C4_no_boundaries [OF h1 h2 h3 h4, of spec_Imports] h1 h2 h3 h4 h5 h6 by simp
qed

text \<open>
  C5. The list of available dates is the normalized \<^verbatim>\<open>availableDates\<close> prop with the
  all-day flag off. With the normalizer of the locale contract, the list is empty for
  an absent prop and has one range for each entry of the prop, the exact range of
  that entry: a range entry with the instants \<open>s\<close> and \<open>e\<close> gives the range from \<open>s\<close> to
  \<open>e\<close>, and a date entry with the instant \<open>s\<close> the range from \<open>s\<close> to \<open>s\<close>, whatever the
  time of day of these instants is.
\<close>

theorem C5_availableDates_not_all_day:
  "availableDates imp props =
     normalizeDates (locale_value imp props) (props_availableDates props) False
   \<and> (normalizeDates (locale_value imp props) = spec_normalizeDates off \<longrightarrow>
        (props_availableDates props = None \<longrightarrow> availableDates imp props = [])
        \<and> (\<forall>specs. props_availableDates props = Some specs \<longrightarrow>
              availableDates imp props = map (spec_exactRange off) specs
              \<and> length (availableDates imp props) = length specs
              \<and> (\<forall>i s e. i < length specs
                     \<and> specs ! i = SpecRange (Some (Date (Num s))) (Some (Date (Num e)))
                     \<and> \<bar>s\<bar> \<le> maxTime \<and> \<bar>e\<bar> \<le> maxTime \<longrightarrow>
                   availableDates imp props ! i =
                     \<lparr>range_start = Some (Date (Num s)), range_end = Some (Date (Num e))\<rparr>)
              \<and> (\<forall>i s. i < length specs \<and> specs ! i = SpecDate (Date (Num s))
                     \<and> \<bar>s\<bar> \<le> maxTime \<longrightarrow>
                   availableDates imp props ! i =
                     \<lparr>range_start = Some (Date (Num s)), range_end = Some (Date (Num s))\<rparr>)))"
proof (intro conjI impI allI)
  show "availableDates imp props =
     normalizeDates (locale_value imp props) (props_availableDates props) False"
    by (rule availableDates_normalizeDates)
next
  assume "normalizeDates (locale_value imp props) = spec_normalizeDates off"
    and "props_availableDates props = None"
  then show "availableDates imp props = []"
    by (simp add: availableDates_normalizeDates spec_normalizeDates_def)
next
  fix specs
  assume "normalizeDates (locale_value imp props) = spec_normalizeDates off"
    and "props_availableDates props = Some specs"
  then show "availableDates imp props = map (spec_exactRange off) specs"
    by (simp add: availableDates_normalizeDates spec_normalizeDates_def)
next
  fix specs
  assume "normalizeDates (locale_value imp props) = spec_normalizeDates off"
    and "props_availableDates props = Some specs"
  then show "length (availableDates imp props) = length specs"
    by (simp add: availableDates_normalizeDates spec_normalizeDates_def)
next
  fix specs i s e
  assume n: "normalizeDates (locale_value imp props) = spec_normalizeDates off"
    and p: "props_availableDates props = Some specs"
    and h: "i < length specs
            \<and> specs ! i = SpecRange (Some (Date (Num s))) (Some (Date (Num e)))
            \<and> \<bar>s\<bar> \<le> maxTime \<and> \<bar>e\<bar> \<le> maxTime"
  from n p have "availableDates imp props = map (spec_exactRange off) specs"
    by (simp add: availableDates_normalizeDates spec_normalizeDates_def)
  with h show "availableDates imp props ! i =
      \<lparr>range_start = Some (Date (Num s)), range_end = Some (Date (Num e))\<rparr>"
    by (simp add: spec_normalizeDate_valid)
next
  fix specs i s
  assume n: "normalizeDates (locale_value imp props) = spec_normalizeDates off"
    and p: "props_availableDates props = Some specs"
    and h: "i < length specs \<and> specs ! i = SpecDate (Date (Num s)) \<and> \<bar>s\<bar> \<le> maxTime"
  from n p have "availableDates imp props = map (spec_exactRange off) specs"
    by (simp add: availableDates_normalizeDates spec_normalizeDates_def)
  with h show "availableDates imp props ! i =
      \<lparr>range_start = Some (Date (Num s)), range_end = Some (Date (Num s))\<rparr>"
    by (simp add: spec_normalizeDate_valid)
qed

theorem C5_witness:
  "normalizeDates
     (locale_value spec_Imports
        (no_props\<lparr>props_availableDates :=
           Some [SpecRange (Some (Date (Num 1710063000000))) (Some (Date (Num 1710066600000)))]\<rparr>))
     = spec_normalizeDates 0
   \<and> props_availableDates
        (no_props\<lparr>props_availableDates :=
           Some [SpecRange (Some (Date (Num 1710063000000))) (Some (Date (Num 1710066600000)))]\<rparr>)
       = Some [SpecRange (Some (Date (Num 1710063000000))) (Some (Date (Num 1710066600000)))]
   \<and> \<bar>1710063000000\<bar> \<le> maxTime \<and> \<bar>1710066600000\<bar> \<le> maxTime
   \<and> localTimeOfDay 0 1710063000000 = 34200000
   \<and> localTimeOfDay 0 1710066600000 = 37800000
   \<and> availableDates spec_Imports
        (no_props\<lparr>props_availableDates :=
           Some [SpecRange (Some (Date (Num 1710063000000))) (Some (Date (Num 1710066600000)))]\<rparr>)
        ! 0 =
       \<lparr>range_start = Some (Date (Num 1710063000000)),
        range_end = Some (Date (Num 1710066600000))\<rparr>
   \<and> availableDates spec_Imports no_props = []
   \<and> disabledDates spec_Imports
        (no_props\<lparr>props_disabledDates :=
           Some [SpecRange (Some (Date (Num 1710063000000))) (Some (Date (Num 1710066600000)))]\<rparr>)
       = [\<lparr>range_start = Some (Date (Num 1710028800000)),
           range_end = Some (Date (Num 1710115199000))\<rparr>]"
proof -
  let ?xs = "[SpecRange (Some (Date (Num 1710063000000))) (Some (Date (Num 1710066600000)))]"
  let ?p = "no_props\<lparr>props_availableDates := Some ?xs\<rparr>"
  have n: "normalizeDates (locale_value spec_Imports ?p) = spec_normalizeDates 0"
    by (simp add: locale_value_spec spec_Locale_def no_props_def)
  have n0: "normalizeDates (locale_value spec_Imports no_props) = spec_normalizeDates 0"
    by (simp add: locale_value_spec spec_Locale_def no_props_def)
  have p: "props_availableDates ?p = Some ?xs" by simp
  have p0: "props_availableDates no_props = None" by (simp add: no_props_def)
  have v: "\<bar>1710063000000\<bar> \<le> maxTime" and w: "\<bar>1710066600000\<bar> \<le> maxTime"
    by (simp_all add: maxTime_def)
  have t1: "localTimeOfDay 0 1710063000000 = 34200000"
    and t2: "localTimeOfDay 0 1710066600000 = 37800000"
    by (simp_all add: localTimeOfDay_def msPerDay_def)
  have h: "0 < length ?xs \<and> ?xs ! 0 = SpecRange (Some (Date (Num 1710063000000)))
             (Some (Date (Num 1710066600000)))
           \<and> \<bar>1710063000000\<bar> \<le> maxTime \<and> \<bar>1710066600000\<bar> \<le> maxTime"
    using v w by simp
  note c = C5_availableDates_not_all_day [of spec_Imports ?p 0, THEN conjunct2, rule_format,
      OF n, THEN conjunct2, rule_format, OF p]
  have r: "availableDates spec_Imports ?p ! 0 =
       \<lparr>range_start = Some (Date (Num 1710063000000)),
        range_end = Some (Date (Num 1710066600000))\<rparr>"
    using c [THEN conjunct2, THEN conjunct2, THEN conjunct1, rule_format, OF h] .
  have e: "availableDates spec_Imports no_props = []"
    using C5_availableDates_not_all_day [of spec_Imports no_props 0, THEN conjunct2,
        rule_format, OF n0, THEN conjunct1, rule_format, OF p0] .
  have d: "disabledDates spec_Imports (no_props\<lparr>props_disabledDates := Some ?xs\<rparr>)
       = [\<lparr>range_start = Some (Date (Num 1710028800000)),
           range_end = Some (Date (Num 1710115199000))\<rparr>]"
    by (simp add: disabledDates_append spec_eval)
  from n p v w t1 t2 r e d show ?thesis by (intro conjI)
qed

text \<open>
  C6. Whatever the input, the disabled attribute is built with the key
  \<^verbatim>\<open>disabled\<close>, the list of disabled dates as its dates, the list of available dates
  as its excluded dates, the exclusion mode \<^verbatim>\<open>includes\<close> and the order 100.
\<close>

theorem C6_disabledAttribute:
  "attribute_config (disabledAttribute imp props) =
     \<lparr>attr_key = ''disabled'',
      attr_dates = disabledDates imp props,
      attr_excludeDates = availableDates imp props,
      attr_excludeMode = Includes,
      attr_order = 100\<rparr>"
  by (simp add: disabledAttribute_def)

theorem C6_witness:
  "attribute_config
     (disabledAttribute spec_Imports
        (no_props\<lparr>props_maxDate := Some (Date (Num 1710028800000)),
                  props_availableDates := Some [SpecDate (Date (Num 1710063000000))]\<rparr>)) =
     \<lparr>attr_key = ''disabled'',
      attr_dates = [\<lparr>range_start = Some (Date (Num 1710115200000)), range_end = None\<rparr>],
      attr_excludeDates =
        [\<lparr>range_start = Some (Date (Num 1710063000000)),
          range_end = Some (Date (Num 1710063000000))\<rparr>],
      attr_excludeMode = Includes,
      attr_order = 100\<rparr>"
proof -
  let ?p = "no_props\<lparr>props_maxDate := Some (Date (Num 1710028800000)),
                  props_availableDates := Some [SpecDate (Date (Num 1710063000000))]\<rparr>"
  have d: "disabledDates spec_Imports ?p =
      [\<lparr>range_start = Some (Date (Num 1710115200000)), range_end = None\<rparr>]"
    by (simp add: disabledDates_append spec_eval)
  have a: "availableDates spec_Imports ?p =
      [\<lparr>range_start = Some (Date (Num 1710063000000)),
          range_end = Some (Date (Num 1710063000000))\<rparr>]"
    by (simp add: availableDates_def spec_eval)
  show ?thesis using C6_disabledAttribute [of spec_Imports ?p] d a by simp
qed

text \<open>
  C7. The list of disabled dates is the normalized user entries, then the range of
  the minimum if that side is present, then the range of the maximum if that side
  is present; its length is the number of normalized entries plus one for each
  side present, and nothing is appended when neither side is present.
\<close>

theorem C7_disabledDates_order_and_length:
  "disabledDates imp props =
     normalizeDates (locale_value imp props) (props_disabledDates props) True
       @ (case resolved_min imp props of None \<Rightarrow> [] | Some m \<Rightarrow> [min_range m])
       @ (case resolved_max imp props of None \<Rightarrow> [] | Some x \<Rightarrow> [max_range x])
   \<and> length (disabledDates imp props) =
       length (normalizeDates (locale_value imp props) (props_disabledDates props) True)
         + (if min_present props then 1 else 0) + (if max_present props then 1 else 0)
   \<and> (resolved_min imp props = None \<longleftrightarrow> \<not> min_present props)
   \<and> (resolved_max imp props = None \<longleftrightarrow> \<not> max_present props)
   \<and> (\<not> min_present props \<and> \<not> max_present props \<longrightarrow> synthesized imp props = [])"
proof -
  have app: "disabledDates imp props =
     normalizeDates (locale_value imp props) (props_disabledDates props) True
       @ (case resolved_min imp props of None \<Rightarrow> [] | Some m \<Rightarrow> [min_range m])
       @ (case resolved_max imp props of None \<Rightarrow> [] | Some x \<Rightarrow> [max_range x])"
    using disabledDates_append [of imp props] by (simp add: min_ranges_def max_ranges_def)
  have len: "length (disabledDates imp props) =
       length (normalizeDates (locale_value imp props) (props_disabledDates props) True)
         + (if min_present props then 1 else 0) + (if max_present props then 1 else 0)"
    by (simp add: disabledDates_append length_min_ranges length_max_ranges)
  have mn: "resolved_min imp props = None \<longleftrightarrow> \<not> min_present props"
    using resolved_min_None [of props imp] resolved_min_Some [of props imp] by auto
  have mx: "resolved_max imp props = None \<longleftrightarrow> \<not> max_present props"
    using resolved_max_None [of props imp] resolved_max_Some [of props imp] by auto
  have none: "\<not> min_present props \<and> \<not> max_present props \<longrightarrow> synthesized imp props = []"
    by (simp add: synthesized_append min_ranges_def max_ranges_def resolved_min_None
        resolved_max_None)
  from app len mn mx none show ?thesis by blast
qed

theorem C7_witness:
  "disabledDates spec_Imports
     (no_props\<lparr>props_disabledDates := Some [SpecDate (Date (Num 1709600000000))],
               props_minDate := Some (Date (Num 1710028800000)),
               props_maxDateExact := Some (Date (Num 1711000000000))\<rparr>) =
     [\<lparr>range_start = Some (Date (Num 1709596800000)),
       range_end = Some (Date (Num 1709683199000))\<rparr>,
      \<lparr>range_start = None, range_end = Some (Date (Num 1710028799000))\<rparr>,
      \<lparr>range_start = Some (Date (Num 1711000001000)), range_end = None\<rparr>]"
  using C7_disabledDates_order_and_length
    [of spec_Imports
        "no_props\<lparr>props_disabledDates := Some [SpecDate (Date (Num 1709600000000))],
               props_minDate := Some (Date (Num 1710028800000)),
               props_maxDateExact := Some (Date (Num 1711000000000))\<rparr>"]
  by (simp add: spec_eval)

text \<open>
  C8 (as amended). When both boundaries resolve to instants \<open>a\<close> (minimum) and \<open>b\<close>
  (maximum), and a range holds its end instant, an instant of the range of \<^verbatim>\<open>Date\<close>
  lies in one of the two synthesized ranges exactly when it is at most \<open>a - 1000\<close> or
  at least \<open>b + 1000\<close>: the ranges leave out exactly the instants strictly between
  \<open>a - 1000\<close> and \<open>b + 1000\<close>. So every instant, in milliseconds, lies in one of the
  two ranges exactly when \<open>b + 1999 \<le> a\<close>.
\<close>

theorem C8_inverted_boundaries:
  assumes "resolved_min imp props = Some (Date (Num a))"
    and "resolved_max imp props = Some (Date (Num b))"
    and "\<bar>a\<bar> \<le> maxTime" and "\<bar>b\<bar> \<le> maxTime"
  shows "synthesized imp props = [min_range (Date (Num a)), max_range (Date (Num b))]
    \<and> (\<forall>t. \<bar>t\<bar> \<le> maxTime \<longrightarrow>
          (\<not> in_some_range t (synthesized imp props) \<longleftrightarrow> a - 1000 < t \<and> t < b + 1000))
    \<and> ((\<forall>t. \<bar>t\<bar> \<le> maxTime \<longrightarrow> in_some_range t (synthesized imp props))
          \<longleftrightarrow> b + 1999 \<le> a)
    \<and> ((\<forall>t. in_some_range t (synthesized imp props)) \<longleftrightarrow> b + 1999 \<le> a)
    \<and> (\<forall>t. a - 1000 < t \<and> t < b + 1000 \<longrightarrow> \<not> in_some_range t (synthesized imp props))"
proof -
  have syn: "synthesized imp props = [min_range (Date (Num a)), max_range (Date (Num b))]"
    using assms(1,2) by (simp add: synthesized_append min_ranges_def max_ranges_def)
  have gap: "\<not> in_some_range t (synthesized imp props)" if "a - 1000 < t \<and> t < b + 1000" for t
    using that unfolding syn in_some_range_pair by linarith
  have outside: "in_some_range t (synthesized imp props)"
    if t: "\<bar>t\<bar> \<le> maxTime" and o: "\<not> (a - 1000 < t \<and> t < b + 1000)" for t
  proof (cases "t \<le> a - 1000")
    case True
    then have "\<bar>a - 1000\<bar> \<le> maxTime" using t assms(3) by linarith
    with True show ?thesis unfolding syn in_some_range_pair by blast
  next
    case False
    with o have s: "b + 1000 \<le> t" by linarith
    then have "\<bar>b + 1000\<bar> \<le> maxTime" using t assms(4) by linarith
    with s show ?thesis unfolding syn in_some_range_pair by blast
  qed
  have exact: "\<not> in_some_range t (synthesized imp props) \<longleftrightarrow> a - 1000 < t \<and> t < b + 1000"
    if "\<bar>t\<bar> \<le> maxTime" for t
    using gap [of t] outside [OF that] by blast
  have cover: "in_some_range t (synthesized imp props)" if "b + 1999 \<le> a" for t
  proof -
    have "\<bar>a - 1000\<bar> \<le> maxTime" and "\<bar>b + 1000\<bar> \<le> maxTime"
      using that assms(3,4) by linarith+
    moreover have "t \<le> a - 1000 \<or> b + 1000 \<le> t" using that by linarith
    ultimately show ?thesis unfolding syn in_some_range_pair by blast
  qed
  have need: "b + 1999 \<le> a"
    if all: "\<forall>t. \<bar>t\<bar> \<le> maxTime \<longrightarrow> in_some_range t (synthesized imp props)"
  proof (rule ccontr)
    assume n: "\<not> b + 1999 \<le> a"
    define t where "t = max (a - 999) (- maxTime)"
    have v: "\<bar>t\<bar> \<le> maxTime" using assms(3,4) unfolding t_def by linarith
    have "a - 1000 < t \<and> t < b + 1000" using n assms(3,4) unfolding t_def by linarith
    then have "\<not> in_some_range t (synthesized imp props)" by (rule gap)
    with all v show False by blast
  qed
  have iff_valid: "(\<forall>t. \<bar>t\<bar> \<le> maxTime \<longrightarrow> in_some_range t (synthesized imp props))
          \<longleftrightarrow> b + 1999 \<le> a"
    using need cover by blast
  have iff_all: "(\<forall>t. in_some_range t (synthesized imp props)) \<longleftrightarrow> b + 1999 \<le> a"
    using need cover by blast
  show ?thesis
  proof (intro conjI allI impI)
    show "synthesized imp props = [min_range (Date (Num a)), max_range (Date (Num b))]"
      by (rule syn)
    show "\<not> in_some_range t (synthesized imp props) \<longleftrightarrow> a - 1000 < t \<and> t < b + 1000"
      if "\<bar>t\<bar> \<le> maxTime" for t
      using that by (rule exact)
    show "(\<forall>t. \<bar>t\<bar> \<le> maxTime \<longrightarrow> in_some_range t (synthesized imp props))
          \<longleftrightarrow> b + 1999 \<le> a"
      by (rule iff_valid)
    show "(\<forall>t. in_some_range t (synthesized imp props)) \<longleftrightarrow> b + 1999 \<le> a"
      by (rule iff_all)
    show "\<not> in_some_range t (synthesized imp props)" if "a - 1000 < t \<and> t < b + 1000" for t
      using that by (rule gap)
  qed
qed

theorem C8_witness:
  "resolved_min spec_Imports
     (no_props\<lparr>props_minDate := Some (Date (Num 1710201600000)),
               props_maxDate := Some (Date (Num 1710028800000))\<rparr>)
     = Some (Date (Num 1710201600000))
   \<and> resolved_max spec_Imports
     (no_props\<lparr>props_minDate := Some (Date (Num 1710201600000)),
               props_maxDate := Some (Date (Num 1710028800000))\<rparr>)
     = Some (Date (Num 1710115199000))
   \<and> \<bar>1710201600000\<bar> \<le> maxTime \<and> \<bar>1710115199000\<bar> \<le> maxTime
   \<and> synthesized spec_Imports
     (no_props\<lparr>props_minDate := Some (Date (Num 1710201600000)),
               props_maxDate := Some (Date (Num 1710028800000))\<rparr>)
     = [\<lparr>range_start = None, range_end = Some (Date (Num 1710201599000))\<rparr>,
        \<lparr>range_start = Some (Date (Num 1710115200000)), range_end = None\<rparr>]
   \<and> (\<forall>t. in_some_range t
          (synthesized spec_Imports
            (no_props\<lparr>props_minDate := Some (Date (Num 1710201600000)),
                      props_maxDate := Some (Date (Num 1710028800000))\<rparr>)))
   \<and> resolved_min spec_Imports
     (no_props\<lparr>props_minDate := Some (Date (Num 1710115200000)),
               props_maxDate := Some (Date (Num 1710028800000))\<rparr>)
     = Some (Date (Num 1710115200000))
   \<and> resolved_max spec_Imports
     (no_props\<lparr>props_minDate := Some (Date (Num 1710115200000)),
               props_maxDate := Some (Date (Num 1710028800000))\<rparr>)
     = Some (Date (Num 1710115199000))
   \<and> \<bar>1710115200000\<bar> \<le> maxTime
   \<and> \<bar>1710115199000\<bar> \<le> maxTime
   \<and> in_some_range 1710115199000
        (synthesized spec_Imports
          (no_props\<lparr>props_minDate := Some (Date (Num 1710115200000)),
                    props_maxDate := Some (Date (Num 1710028800000))\<rparr>))
   \<and> \<bar>1710115199001\<bar> \<le> maxTime
   \<and> \<not> in_some_range 1710115199001
        (synthesized spec_Imports
          (no_props\<lparr>props_minDate := Some (Date (Num 1710115200000)),
                    props_maxDate := Some (Date (Num 1710028800000))\<rparr>))"
proof -
  let ?p = "no_props\<lparr>props_minDate := Some (Date (Num 1710201600000)),
               props_maxDate := Some (Date (Num 1710028800000))\<rparr>"
  let ?q = "no_props\<lparr>props_minDate := Some (Date (Num 1710115200000)),
               props_maxDate := Some (Date (Num 1710028800000))\<rparr>"
  have m: "resolved_min spec_Imports ?p = Some (Date (Num 1710201600000))"
    by (simp add: spec_eval)
  have x: "resolved_max spec_Imports ?p = Some (Date (Num 1710115199000))"
    by (simp add: spec_eval)
  have va: "\<bar>1710201600000\<bar> \<le> maxTime" and vb: "\<bar>1710115199000\<bar> \<le> maxTime"
    by (simp_all add: maxTime_def)
  note c = C8_inverted_boundaries [OF m x va vb]
  have s: "synthesized spec_Imports ?p
     = [\<lparr>range_start = None, range_end = Some (Date (Num 1710201599000))\<rparr>,
        \<lparr>range_start = Some (Date (Num 1710115200000)), range_end = None\<rparr>]"
    unfolding c [THEN conjunct1] by (simp add: min_range_def max_range_def new_Date_def maxTime_def)
  have "(1710115199000 :: int) + 1999 \<le> 1710201600000" by simp
  then have a: "\<forall>t. in_some_range t (synthesized spec_Imports ?p)"
    using c [THEN conjunct2, THEN conjunct2, THEN conjunct2, THEN conjunct1] by blast
  have qm: "resolved_min spec_Imports ?q = Some (Date (Num 1710115200000))"
    by (simp add: spec_eval)
  have qx: "resolved_max spec_Imports ?q = Some (Date (Num 1710115199000))"
    by (simp add: spec_eval)
  have qa: "\<bar>1710115200000\<bar> \<le> maxTime" by (simp add: maxTime_def)
  have qt: "\<bar>1710115199001\<bar> \<le> maxTime" by (simp add: maxTime_def)
  note e = C8_inverted_boundaries [OF qm qx qa vb, THEN conjunct2, THEN conjunct1, rule_format]
  have i: "in_some_range 1710115199000 (synthesized spec_Imports ?q)"
    using e [OF vb] by simp
  have o: "\<not> in_some_range 1710115199001 (synthesized spec_Imports ?q)"
    using e [OF qt] by simp
  from m x va vb s a qm qx qa i qt o show ?thesis by (intro conjI)
qed

text \<open>
  The claim as stated fails at the resolution of \<^verbatim>\<open>Date\<close>: with the minimum on
  2024-03-11 and the maximum on 2024-03-10 (universal time) the minimum resolves to
  2024-03-11T00:00:00, later than the maximum 2024-03-10T23:59:59, and the instant
  2024-03-10T23:59:59.500 lies in neither synthesized range.
\<close>

theorem C8_counterexample:
  "resolved_min spec_Imports
     (no_props\<lparr>props_minDate := Some (Date (Num 1710115200000)),
               props_maxDate := Some (Date (Num 1710028800000))\<rparr>)
     = Some (Date (Num 1710115200000))
   \<and> resolved_max spec_Imports
     (no_props\<lparr>props_minDate := Some (Date (Num 1710115200000)),
               props_maxDate := Some (Date (Num 1710028800000))\<rparr>)
     = Some (Date (Num 1710115199000))
   \<and> (1710115199000 :: int) < 1710115200000
   \<and> synthesized spec_Imports
     (no_props\<lparr>props_minDate := Some (Date (Num 1710115200000)),
               props_maxDate := Some (Date (Num 1710028800000))\<rparr>)
     = [\<lparr>range_start = None, range_end = Some (Date (Num 1710115199000))\<rparr>,
        \<lparr>range_start = Some (Date (Num 1710115200000)), range_end = None\<rparr>]
   \<and> \<not> in_some_range 1710115199500
        (synthesized spec_Imports
          (no_props\<lparr>props_minDate := Some (Date (Num 1710115200000)),
                    props_maxDate := Some (Date (Num 1710028800000))\<rparr>))"
  by (simp add: synthesized_append spec_eval)

text \<open>
  C9. \<open>useBase\<close> throws exactly when nothing was provided under the context key, and
  then with its fixed message; a context that was provided is returned as it is.
\<close>

theorem C9_useBase:
  "((\<exists>e. useBase provided = Inl e) \<longleftrightarrow> inject provided contextKey = None)
   \<and> (\<forall>context. inject provided contextKey = Some context \<longrightarrow>
         useBase provided = Inr context)
   \<and> (inject provided contextKey = None \<longrightarrow>
         useBase provided =
           Inl (Error ''Base context missing. Please verify this component is nested within a valid context provider.''))"
  by (cases "inject provided contextKey") (simp_all add: useBase_def)

theorem C9_witness:
  "inject (Map.empty :: string \<rightharpoonup> nat) contextKey = None
   \<and> useBase (Map.empty :: string \<rightharpoonup> nat) =
       Inl (Error ''Base context missing. Please verify this component is nested within a valid context provider.'')
   \<and> inject (provide contextKey (7 :: nat) Map.empty) contextKey = Some 7
   \<and> useBase (provide contextKey (7 :: nat) Map.empty) = Inr 7"
proof -
  have a: "inject (Map.empty :: string \<rightharpoonup> nat) contextKey = None"
    by (simp add: inject_def)
  have b: "inject (provide contextKey (7 :: nat) Map.empty) contextKey = Some 7"
    by (simp add: inject_def provide_def)
  show ?thesis
    using a b C9_useBase [of "Map.empty :: string \<rightharpoonup> nat"]
      C9_useBase [of "provide contextKey (7 :: nat) Map.empty"]
    by blast
qed

text \<open>
  C10. A \<^verbatim>\<open>locale\<close> prop that is a \<^verbatim>\<open>Locale\<close> instance is the locale, whatever the
  \<^verbatim>\<open>firstDayOfWeek\<close>, \<^verbatim>\<open>masks\<close> and \<^verbatim>\<open>timezone\<close> props are. A \<^verbatim>\<open>locale\<close> prop that is a
  configuration object is passed as it is to the constructor of \<^verbatim>\<open>Locale\<close>, whatever
  the \<^verbatim>\<open>firstDayOfWeek\<close> and \<^verbatim>\<open>masks\<close> props are. With an absent \<^verbatim>\<open>locale\<close> prop or an
  identifier, the configuration passed holds the two props.
\<close>

theorem C10_locale_prop:
  "(\<forall>l. props_locale props = Some (LocaleInstance l) \<longrightarrow>
      locale_value imp props = l
      \<and> (\<forall>f m z. locale_value imp
            (props\<lparr>props_firstDayOfWeek := f, props_masks := m, props_timezone := z\<rparr>) = l))
   \<and> (\<forall>c. props_locale props = Some (LocaleObject c) \<longrightarrow>
      locale_value imp props =
        new_Locale imp c
          \<lparr>options_locales = locales_value imp, options_timezone = props_timezone props\<rparr>
      \<and> (\<forall>f m. locale_value imp (props\<lparr>props_firstDayOfWeek := f, props_masks := m\<rparr>)
            = locale_value imp props))
   \<and> (props_locale props = None \<or> (\<exists>s. props_locale props = Some (LocaleId s)) \<longrightarrow>
      locale_value imp props =
        new_Locale imp
          \<lparr>config_id = (case props_locale props of Some (LocaleId s) \<Rightarrow> Some s | _ \<Rightarrow> None),
           config_firstDayOfWeek = props_firstDayOfWeek props,
           config_masks = props_masks props\<rparr>
          \<lparr>options_locales = locales_value imp, options_timezone = props_timezone props\<rparr>)"
proof (cases "props_locale props")
  case None
  then show ?thesis by (simp add: locale_value_def)
next
  case (Some lp)
  then show ?thesis by (cases lp) (simp_all add: locale_value_def)
qed

theorem C10_witness:
  "locale_value spec_Imports
     (no_props\<lparr>props_locale := Some (LocaleInstance (spec_Locale 3600000 Map.empty)),
               props_firstDayOfWeek := Some 2, props_masks := Some [''title'' \<mapsto> ''MMMM YYYY''],
               props_timezone := Some ''UTC''\<rparr>) = spec_Locale 3600000 Map.empty
   \<and> locale_value spec_Imports
       (no_props\<lparr>props_locale := Some (LocaleObject
                    \<lparr>config_id = Some ''pl'', config_firstDayOfWeek = Some 1, config_masks = None\<rparr>),
                 props_firstDayOfWeek := Some 2,
                 props_masks := Some [''title'' \<mapsto> ''MMMM YYYY'']\<rparr>) =
       locale_value spec_Imports
         (no_props\<lparr>props_locale := Some (LocaleObject
                    \<lparr>config_id = Some ''pl'', config_firstDayOfWeek = Some 1, config_masks = None\<rparr>)\<rparr>)
   \<and> locale_masks (locale_value spec_Imports
        (no_props\<lparr>props_locale := Some (LocaleId ''pl''),
                  props_masks := Some [''title'' \<mapsto> ''MMMM YYYY'']\<rparr>)) ''title''
       = Some ''MMMM YYYY''"
proof -
  let ?l = "spec_Locale 3600000 Map.empty"
  let ?c = "\<lparr>config_id = Some ''pl'', config_firstDayOfWeek = Some 1, config_masks = None\<rparr>"
  let ?p1 = "no_props\<lparr>props_locale := Some (LocaleInstance ?l)\<rparr>"
  let ?p2 = "no_props\<lparr>props_locale := Some (LocaleObject ?c)\<rparr>"
  let ?p3 = "no_props\<lparr>props_locale := Some (LocaleId ''pl''),
                  props_masks := Some [''title'' \<mapsto> ''MMMM YYYY'']\<rparr>"
  have h1: "props_locale ?p1 = Some (LocaleInstance ?l)" by simp
  have h2: "props_locale ?p2 = Some (LocaleObject ?c)" by simp
  have h3: "props_locale ?p3 = None \<or> (\<exists>s. props_locale ?p3 = Some (LocaleId s))" by simp
  note a = C10_locale_prop [of ?p1 spec_Imports, THEN conjunct1, rule_format, OF h1,
      THEN conjunct2, rule_format,
      where f = "Some 2" and m = "Some [''title'' \<mapsto> ''MMMM YYYY'']" and z = "Some ''UTC''"]
  note b = C10_locale_prop [of ?p2 spec_Imports, THEN conjunct2, THEN conjunct1, rule_format,
      OF h2, THEN conjunct2, rule_format,
      where f = "Some 2" and m = "Some [''title'' \<mapsto> ''MMMM YYYY'']"]
  note c = C10_locale_prop [of ?p3 spec_Imports, THEN conjunct2, THEN conjunct2, rule_format,
      OF h3]
  have c': "locale_masks (locale_value spec_Imports ?p3) ''title'' = Some ''MMMM YYYY''"
    unfolding c by (simp add: spec_Imports_def spec_Locale_def)
  from a have a': "locale_value spec_Imports
     (no_props\<lparr>props_locale := Some (LocaleInstance (spec_Locale 3600000 Map.empty)),
               props_firstDayOfWeek := Some 2, props_masks := Some [''title'' \<mapsto> ''MMMM YYYY''],
               props_timezone := Some ''UTC''\<rparr>) = spec_Locale 3600000 Map.empty"
    by simp
  from b have b': "locale_value spec_Imports
       (no_props\<lparr>props_locale := Some (LocaleObject ?c),
                 props_firstDayOfWeek := Some 2,
                 props_masks := Some [''title'' \<mapsto> ''MMMM YYYY'']\<rparr>) =
       locale_value spec_Imports (no_props\<lparr>props_locale := Some (LocaleObject ?c)\<rparr>)"
    by simp
  from a' b' c' show ?thesis by (intro conjI)
qed

end
